theory Spec2Isabelle
  imports Main
begin

section \<open>Errors\<close>

text \<open>
  Everything a JavaScript \<open>throw\<close> or a rejected promise can carry.  \<open>Error kind message\<close> is
  an instance of \<open>Error\<close> (it has a \<open>message\<close>); \<open>NonError\<close> is any other thrown value, which
  the \<open>/login\<close> handler tells apart with \<open>err instanceof Error\<close>.
\<close>

datatype error_kind =
    SqliteError
  | SyntaxError
  | UnknownOrConsumedFlow
  | CallbackValidationError
  | AuthorizationInitiationError
  | CredentialRestoreError
  | TokenRefreshError
  | InfrastructureError

datatype thrown = Error error_kind string | NonError

section \<open>db.ts: the schema and its migration\<close>

text \<open>
  \<open>DatabaseSchema\<close> has two tables of two \<open>varchar\<close> columns each; the column \<open>key\<close> is the
  primary key of both.  A table is the list of its rows in insertion order, and \<open>None\<close> while
  the table has not been created (a query on it then fails with "no such table").
\<close>

record auth_state_row =
  state_key :: string
  state :: string

record auth_session_row =
  session_key :: string
  session :: string

record DatabaseSchema =
  auth_state :: "auth_state_row list option"
  auth_session :: "auth_session_row list option"

definition createDb :: DatabaseSchema where
  "createDb = \<lparr>auth_state = None, auth_session = None\<rparr>"

text \<open>Migration "001", \<open>up\<close>: two \<open>createTable\<close> statements, each failing on an existing table.\<close>

definition migration_001_up :: "DatabaseSchema \<Rightarrow> thrown + DatabaseSchema" where
  "migration_001_up db =
     (case auth_state db of
        Some _ \<Rightarrow> Inl (Error SqliteError ''table auth_state already exists'')
      | None \<Rightarrow>
          (let db1 = db\<lparr>auth_state := Some []\<rparr> in
           case auth_session db1 of
             Some _ \<Rightarrow> Inl (Error SqliteError ''table auth_session already exists'')
           | None \<Rightarrow> Inr (db1\<lparr>auth_session := Some []\<rparr>)))"

text \<open>\<open>migrateToLatest\<close>: runs the only migration and rethrows its error.\<close>

definition migrateToLatest :: "DatabaseSchema \<Rightarrow> thrown + DatabaseSchema" where
  "migrateToLatest db = (case migration_001_up db of Inl e \<Rightarrow> Inl e | Inr db' \<Rightarrow> Inr db')"

section \<open>The three statements the stores issue\<close>

text \<open>
  \<open>selectFrom(t).selectAll().where("key", "=", key).executeTakeFirst()\<close>: the first row whose
  key column equals \<open>key\<close>, or nothing.
\<close>

definition selectWhereKey :: "('r \<Rightarrow> string) \<Rightarrow> string \<Rightarrow> 'r list \<Rightarrow> 'r option" where
  "selectWhereKey col k rows = find (\<lambda>r. col r = k) rows"

text \<open>
  \<open>insertInto(t).values(new).onConflict(oc => oc.doUpdateSet(...))\<close>: one statement.  The row
  that holds the key already is updated where it stands (\<open>upd\<close> assigns the columns of
  \<open>doUpdateSet\<close>); with no such row the new row is appended.
\<close>

fun insertOnConflictDoUpdateSet ::
  "('r \<Rightarrow> string) \<Rightarrow> ('r \<Rightarrow> 'r \<Rightarrow> 'r) \<Rightarrow> 'r \<Rightarrow> 'r list \<Rightarrow> 'r list" where
  "insertOnConflictDoUpdateSet col upd new [] = [new]"
| "insertOnConflictDoUpdateSet col upd new (r # rs) =
     (if col r = col new then upd r new # rs
      else r # insertOnConflictDoUpdateSet col upd new rs)"

text \<open>\<open>deleteFrom(t).where("key", "=", key)\<close>: every row with that key goes.\<close>

definition deleteWhereKey :: "('r \<Rightarrow> string) \<Rightarrow> string \<Rightarrow> 'r list \<Rightarrow> 'r list" where
  "deleteWhereKey col k rows = filter (\<lambda>r. col r \<noteq> k) rows"

section \<open>auth.ts: StateStore and SessionStore\<close>

text \<open>
  \<open>JSON.stringify\<close> and \<open>JSON.parse\<close> are the language's own; the stores take them as a
  parameter.  \<open>JSON_parse\<close> gives \<open>None\<close> where \<open>JSON.parse\<close> throws a \<open>SyntaxError\<close>.
\<close>

record 'v JSON =
  JSON_stringify :: "'v \<Rightarrow> string"
  JSON_parse :: "string \<Rightarrow> 'v option"

definition no_such_table :: "string \<Rightarrow> thrown" where
  "no_such_table t = Error SqliteError (''no such table: '' @ t)"

definition StateStore_get ::
  "'v JSON \<Rightarrow> string \<Rightarrow> DatabaseSchema \<Rightarrow> thrown + 'v option" where
  "StateStore_get J key db =
     (case auth_state db of
        None \<Rightarrow> Inl (no_such_table ''auth_state'')
      | Some rows \<Rightarrow>
          (case selectWhereKey state_key key rows of
             None \<Rightarrow> Inr None
           | Some result \<Rightarrow>
               (case JSON_parse J (state result) of
                  None \<Rightarrow> Inl (Error SyntaxError ''Unexpected token in JSON'')
                | Some v \<Rightarrow> Inr (Some v))))"

definition StateStore_set ::
  "'v JSON \<Rightarrow> string \<Rightarrow> 'v \<Rightarrow> DatabaseSchema \<Rightarrow> thrown + DatabaseSchema" where
  "StateStore_set J key val db =
     (let st = JSON_stringify J val in
      case auth_state db of
        None \<Rightarrow> Inl (no_such_table ''auth_state'')
      | Some rows \<Rightarrow>
          Inr (db\<lparr>auth_state := Some (insertOnConflictDoUpdateSet state_key
                 (\<lambda>old new. old\<lparr>state := state new\<rparr>)
                 \<lparr>state_key = key, state = st\<rparr> rows)\<rparr>))"

definition StateStore_del :: "string \<Rightarrow> DatabaseSchema \<Rightarrow> thrown + DatabaseSchema" where
  "StateStore_del key db =
     (case auth_state db of
        None \<Rightarrow> Inl (no_such_table ''auth_state'')
      | Some rows \<Rightarrow> Inr (db\<lparr>auth_state := Some (deleteWhereKey state_key key rows)\<rparr>))"

definition SessionStore_get ::
  "'v JSON \<Rightarrow> string \<Rightarrow> DatabaseSchema \<Rightarrow> thrown + 'v option" where
  "SessionStore_get J key db =
     (case auth_session db of
        None \<Rightarrow> Inl (no_such_table ''auth_session'')
      | Some rows \<Rightarrow>
          (case selectWhereKey session_key key rows of
             None \<Rightarrow> Inr None
           | Some result \<Rightarrow>
               (case JSON_parse J (session result) of
                  None \<Rightarrow> Inl (Error SyntaxError ''Unexpected token in JSON'')
                | Some v \<Rightarrow> Inr (Some v))))"

definition SessionStore_set ::
  "'v JSON \<Rightarrow> string \<Rightarrow> 'v \<Rightarrow> DatabaseSchema \<Rightarrow> thrown + DatabaseSchema" where
  "SessionStore_set J key val db =
     (let se = JSON_stringify J val in
      case auth_session db of
        None \<Rightarrow> Inl (no_such_table ''auth_session'')
      | Some rows \<Rightarrow>
          Inr (db\<lparr>auth_session := Some (insertOnConflictDoUpdateSet session_key
                 (\<lambda>old new. old\<lparr>session := session new\<rparr>)
                 \<lparr>session_key = key, session = se\<rparr> rows)\<rparr>))"

definition SessionStore_del :: "string \<Rightarrow> DatabaseSchema \<Rightarrow> thrown + DatabaseSchema" where
  "SessionStore_del key db =
     (case auth_session db of
        None \<Rightarrow> Inl (no_such_table ''auth_session'')
      | Some rows \<Rightarrow> Inr (db\<lparr>auth_session := Some (deleteWhereKey session_key key rows)\<rparr>))"

text \<open>
  The primary-key constraint of both tables: no two rows of a table share a key.  It holds
  after the migration and every store operation keeps it.
\<close>

definition primary_keys_unique :: "DatabaseSchema \<Rightarrow> bool" where
  "primary_keys_unique db \<longleftrightarrow>
     (case auth_state db of None \<Rightarrow> True | Some rows \<Rightarrow> distinct (map state_key rows)) \<and>
     (case auth_session db of None \<Rightarrow> True | Some rows \<Rightarrow> distinct (map session_key rows))"

text \<open>How many rows of a table hold a key.\<close>

definition rows_with_key :: "('r \<Rightarrow> string) \<Rightarrow> string \<Rightarrow> 'r list option \<Rightarrow> nat" where
  "rows_with_key col k t = (case t of None \<Rightarrow> 0 | Some rows \<Rightarrow> length (filter (\<lambda>r. col r = k) rows))"

text \<open>Both tables have been created.\<close>

definition tables_exist :: "DatabaseSchema \<Rightarrow> bool" where
  "tables_exist db \<longleftrightarrow> auth_state db \<noteq> None \<and> auth_session db \<noteq> None"

text \<open>A codec for the examples: the JSON booleans.\<close>

definition bool_JSON :: "bool JSON" where
  "bool_JSON = \<lparr>JSON_stringify = (\<lambda>b. if b then ''true'' else ''false''),
                JSON_parse = (\<lambda>s. if s = ''true'' then Some True
                                   else if s = ''false'' then Some False else None)\<rparr>"

section \<open>The libraries index.ts calls\<close>

text \<open>
  \<open>process.env\<close>, as far as \<open>index.ts\<close> reads it for the cookie secret; \<open>PORT\<close> plays no
  part in what follows.
\<close>

record env =
  COOKIE_SECRET :: "string option"

text \<open>\<open>type Session = { did?: string }\<close>, the content of the sealed cookie.\<close>

record Session =
  did :: "string option"

text \<open>JavaScript truthiness of an optional string: \<open>undefined\<close> and \<open>""\<close> are falsy.\<close>

fun truthy :: "string option \<Rightarrow> bool" where
  "truthy None = False"
| "truthy (Some s) = (s \<noteq> [])"

text \<open>
  A value of a form field as \<open>express.urlencoded({ extended: true })\<close> parses it: a string,
  an array or an object.  Only the empty string is falsy.
\<close>

datatype form_value =
    FString string
  | FArray "form_value list"
  | FObject "(string \<times> form_value) list"

fun truthy_field :: "form_value option \<Rightarrow> bool" where
  "truthy_field None = False"
| "truthy_field (Some (FString s)) = (s \<noteq> [])"
| "truthy_field (Some (FArray _)) = True"
| "truthy_field (Some (FObject _)) = True"

record Request =
  originalUrl :: string
  body :: "(string \<Rightarrow> form_value option) option"
  cookie_header :: "string option"

text \<open>
  The state of \<open>res\<close>: the status code, the \<open>Location\<close> of a redirect, the body written by
  \<open>send\<close>, and the \<open>Set-Cookie\<close> header of the cookie \<open>sid\<close>, if one was written.
\<close>

datatype cookie_write = SealedCookie Session | ClearedCookie

record Response =
  statusCode :: nat
  location :: "string option"
  sent :: "string option"
  set_cookie :: "cookie_write option"

definition new_Response :: Response where
  "new_Response = \<lparr>statusCode = 200, location = None, sent = None, set_cookie = None\<rparr>"

definition res_status :: "nat \<Rightarrow> Response \<Rightarrow> Response" where
  "res_status n res = res\<lparr>statusCode := n\<rparr>"

definition res_send :: "string \<Rightarrow> Response \<Rightarrow> Response" where
  "res_send b res = res\<lparr>sent := Some b\<rparr>"

definition res_redirect :: "string \<Rightarrow> Response \<Rightarrow> Response" where
  "res_redirect url res = res\<lparr>statusCode := 302, location := Some url\<rparr>"

record SessionOptions =
  cookieName :: string
  password :: string

text \<open>
  \<open>getIronSession\<close> is the cookie library's; the handlers take it as a parameter.  It reads
  the request with the options and resolves to the session, or rejects.
\<close>

type_synonym iron = "Request \<Rightarrow> SessionOptions \<Rightarrow> thrown + Session"

text \<open>
  Modelled from the spec: the methods \<open>save\<close> and \<open>destroy\<close> of the session object are the
  cookie library's and not in the repository.  \<open>bind\<close> "writes an encrypted cookie carrying the
  subject identifier", \<open>unbind\<close> "clears the cookie".
\<close>

definition session_save :: "Session \<Rightarrow> Response \<Rightarrow> Response" where
  "session_save s res = res\<lparr>set_cookie := Some (SealedCookie s)\<rparr>"

definition session_destroy :: "Session \<Rightarrow> Response \<Rightarrow> Session \<times> Response" where
  "session_destroy s res = (s\<lparr>did := None\<rparr>, res\<lparr>set_cookie := Some ClearedCookie\<rparr>)"

text \<open>What \<open>oauthClient.callback\<close> and \<open>oauthClient.restore\<close> resolve to.\<close>

record 'c OAuthSession =
  oauth_did :: string
  credential :: 'c

datatype 'c Agent = Agent "'c OAuthSession"

section \<open>index.ts\<close>

definition development_secret :: string where
  "development_secret = ''development-secret-key-min-32-chars!!''"

text \<open>\<open>process.env.COOKIE_SECRET || "development-secret-key-min-32-chars!!"\<close>\<close>

definition cookieSecret :: "env \<Rightarrow> string" where
  "cookieSecret e =
     (if truthy (COOKIE_SECRET e) then (case COOKIE_SECRET e of Some s \<Rightarrow> s | None \<Rightarrow> development_secret)
      else development_secret)"

text \<open>
  \<open>main\<close>, up to \<open>app.listen\<close>: the database is created and migrated, and the handlers close
  over it and over the cookie secret.  \<open>Inr\<close> is the listening server, \<open>Inl\<close> the fatal error
  that ends the process.
\<close>

record App =
  app_cookieSecret :: string
  app_db :: DatabaseSchema

definition main :: "env \<Rightarrow> thrown + App" where
  "main e =
     (case migrateToLatest createDb of
        Inl err \<Rightarrow> Inl err
      | Inr db \<Rightarrow> Inr \<lparr>app_cookieSecret = cookieSecret e, app_db = db\<rparr>)"

definition getSession :: "iron \<Rightarrow> string \<Rightarrow> Request \<Rightarrow> thrown + Session" where
  "getSession getIronSession secret req =
     getIronSession req \<lparr>cookieName = ''sid'', password = secret\<rparr>"

text \<open>
  \<open>getSessionAgent\<close>.  \<open>restore\<close> is \<open>oauthClient.restore\<close>: it resolves to a session or to
  nothing, or rejects, and may write to the database.  The result is the agent or \<open>null\<close>
  (\<open>None\<close>), or what \<open>getSessionAgent\<close> itself throws.
\<close>

definition getSessionAgent ::
  "iron \<Rightarrow> string \<Rightarrow>
   (string \<Rightarrow> DatabaseSchema \<Rightarrow> (thrown + 'c OAuthSession option) \<times> DatabaseSchema) \<Rightarrow>
   Request \<Rightarrow> Response \<Rightarrow> DatabaseSchema \<Rightarrow>
   (thrown + 'c Agent option) \<times> Response \<times> DatabaseSchema" where
  "getSessionAgent getIronSession secret restore req res db =
     (case getSession getIronSession secret req of
        Inl err \<Rightarrow> (Inl err, res, db)
      | Inr sess \<Rightarrow>
          (if \<not> truthy (did sess) then (Inr None, res, db)
           else
             (case did sess of
                None \<Rightarrow> (Inr None, res, db)
              | Some d \<Rightarrow>
                  (case restore d db of
                     (Inr oauthSession, db') \<Rightarrow>
                       (Inr (case oauthSession of Some s \<Rightarrow> Some (Agent s) | None \<Rightarrow> None),
                        res, db')
                   | (Inl _, db') \<Rightarrow>
                       (Inr None, snd (session_destroy sess res), db')))))"

text \<open>
  \<open>app.post("/login")\<close>.  \<open>authorize\<close> is \<open>oauthClient.authorize\<close> with the text of the URL
  it resolves to.
\<close>

definition login_failed_page :: "string \<Rightarrow> string" where
  "login_failed_page message =
     ''<h1>Login failed</h1><p>'' @ message @ ''</p><a href='' @ [CHR 0x22] @ ''/login''
       @ [CHR 0x22] @ ''>Try again</a>''"

definition post_login ::
  "(form_value \<Rightarrow> string \<Rightarrow> DatabaseSchema \<Rightarrow> (thrown + string) \<times> DatabaseSchema) \<Rightarrow>
   Request \<Rightarrow> Response \<Rightarrow> DatabaseSchema \<Rightarrow> Response \<times> DatabaseSchema" where
  "post_login authorize req res db =
     (let handle = (case body req of None \<Rightarrow> None | Some b \<Rightarrow> b ''handle'') in
      if \<not> truthy_field handle then (res_send ''Handle is required'' (res_status 400 res), db)
      else
        (case handle of
           None \<Rightarrow> (res_send ''Handle is required'' (res_status 400 res), db)
         | Some h \<Rightarrow>
             (case authorize h ''atproto transition:generic'' db of
                (Inr url, db') \<Rightarrow> (res_redirect url res, db')
              | (Inl err, db') \<Rightarrow>
                  (let message = (case err of Error _ m \<Rightarrow> m | NonError \<Rightarrow> ''Unknown error'')
                   in (res_send (login_failed_page message) (res_status 500 res), db')))))"

text \<open>\<open>s.split(c)\<close> for a one-character separator, and \<open>req.originalUrl.split("?")[1]\<close>.\<close>

fun split :: "char \<Rightarrow> string \<Rightarrow> string list" where
  "split c [] = [[]]"
| "split c (x # xs) =
     (if x = c then [] # split c xs
      else (case split c xs of [] \<Rightarrow> [[x]] | y # ys \<Rightarrow> (x # y) # ys))"

definition query_of :: "string \<Rightarrow> string option" where
  "query_of url = (case split (CHR ''?'') url of _ # q # _ \<Rightarrow> Some q | _ \<Rightarrow> None)"

text \<open>
  \<open>app.get("/oauth/callback")\<close>.  \<open>URLSearchParams\<close> is the language's constructor and
  \<open>callback\<close> is \<open>oauthClient.callback\<close>; both are parameters.
\<close>

definition callback_failed_page :: string where
  "callback_failed_page =
     ''<h1>Login failed</h1><a href='' @ [CHR 0x22] @ ''/login'' @ [CHR 0x22] @ ''>Try again</a>''"

definition get_oauth_callback ::
  "(string option \<Rightarrow> (string \<times> string) list) \<Rightarrow>
   ((string \<times> string) list \<Rightarrow> DatabaseSchema \<Rightarrow> (thrown + 'c OAuthSession) \<times> DatabaseSchema) \<Rightarrow>
   iron \<Rightarrow> string \<Rightarrow> Request \<Rightarrow> Response \<Rightarrow> DatabaseSchema \<Rightarrow> Response \<times> DatabaseSchema" where
  "get_oauth_callback URLSearchParams callback getIronSession secret req res db =
     (let params = URLSearchParams (query_of (originalUrl req)) in
      case callback params db of
        (Inl err, db') \<Rightarrow> (res_send callback_failed_page (res_status 500 res), db')
      | (Inr oauthSession, db') \<Rightarrow>
          (case getSession getIronSession secret req of
             Inl err \<Rightarrow> (res_send callback_failed_page (res_status 500 res), db')
           | Inr sess \<Rightarrow>
               (let session' = sess\<lparr>did := Some (oauth_did oauthSession)\<rparr>;
                    res' = session_save session' res
                in (res_redirect ''/'' res', db'))))"

text \<open>
  \<open>app.post("/logout")\<close>.  The handler has no \<open>try\<close>: a rejection of \<open>getSession\<close> is the
  handler's own (\<open>Inl\<close>), with nothing written to \<open>res\<close>.
\<close>

definition post_logout ::
  "iron \<Rightarrow> string \<Rightarrow> Request \<Rightarrow> Response \<Rightarrow> DatabaseSchema \<Rightarrow>
   (thrown + Response) \<times> DatabaseSchema" where
  "post_logout getIronSession secret req res db =
     (case getSession getIronSession secret req of
        Inl err \<Rightarrow> (Inl err, db)
      | Inr sess \<Rightarrow> (Inr (res_redirect ''/'' (snd (session_destroy sess res))), db))"

section \<open>The authorization flow of the OAuth client\<close>

text \<open>
  Modelled from the spec: \<open>oauthClient.callback\<close> is the OAuth client library's and not in the
  repository.  \<open>completeCallback\<close> "extracts the flow identifier from \<open>queryParams\<close>, looks up and
  deletes the matching FlowStateRecord (single-use: a second callback with the same parameters
  must fail with \<open>UnknownOrConsumedFlow\<close> because the record is already gone), validates the
  provider's response against the stored flow context (delegated to IdentityClient), exchanges
  the authorization code for a renewable credential, and upserts a SessionCredentialRecord for
  the resulting subject identifier".  The store operations are those of \<open>auth.ts\<close>;
  \<open>exchange\<close> is the IdentityClient's validation and code exchange.
\<close>

definition completeCallback ::
  "'s JSON \<Rightarrow> 'c JSON \<Rightarrow> ('s \<Rightarrow> (string \<times> string) list \<Rightarrow> thrown + string \<times> 'c) \<Rightarrow>
   (string \<times> string) list \<Rightarrow> DatabaseSchema \<Rightarrow> (thrown + 'c OAuthSession) \<times> DatabaseSchema" where
  "completeCallback JS JC exchange queryParams db =
     (case map_of queryParams ''state'' of
        None \<Rightarrow> (Inl (Error CallbackValidationError ''missing state parameter''), db)
      | Some flow \<Rightarrow>
          (case StateStore_get JS flow db of
             Inl err \<Rightarrow> (Inl err, db)
           | Inr None \<Rightarrow> (Inl (Error UnknownOrConsumedFlow flow), db)
           | Inr (Some context) \<Rightarrow>
               (case StateStore_del flow db of
                  Inl err \<Rightarrow> (Inl err, db)
                | Inr db1 \<Rightarrow>
                    (case exchange context queryParams of
                       Inl err \<Rightarrow> (Inl err, db1)
                     | Inr (subject, cred) \<Rightarrow>
                         (case SessionStore_set JC subject cred db1 of
                            Inl err \<Rightarrow> (Inl err, db1)
                          | Inr db2 \<Rightarrow>
                              (Inr \<lparr>oauth_did = subject, credential = cred\<rparr>, db2))))))"

section \<open>Stand-ins for the libraries, for the examples\<close>

text \<open>
  A cookie library that seals nothing: the \<open>Cookie\<close> header is the subject identifier.
\<close>

definition plain_iron :: iron where
  "plain_iron req opts = Inr \<lparr>did = cookie_header req\<rparr>"

text \<open>
  A \<open>restore\<close> that finds the storage unreachable, and one that reads the session store.
  The library declares \<open>restore(sub): Promise<OAuthSession>\<close>: it resolves to a session or
  rejects, so for a subject with no stored session the second one rejects.
\<close>

definition restore_unreachable ::
  "string \<Rightarrow> DatabaseSchema \<Rightarrow> (thrown + bool OAuthSession option) \<times> DatabaseSchema" where
  "restore_unreachable subject db = (Inl (Error InfrastructureError ''storage unreachable''), db)"

definition restore_stored ::
  "string \<Rightarrow> DatabaseSchema \<Rightarrow> (thrown + bool OAuthSession option) \<times> DatabaseSchema" where
  "restore_stored subject db =
     (case SessionStore_get bool_JSON subject db of
        Inl err \<Rightarrow> (Inl err, db)
      | Inr None \<Rightarrow> (Inl (Error TokenRefreshError ''The session was deleted by another process''), db)
      | Inr (Some cred) \<Rightarrow> (Inr (Some \<lparr>oauth_did = subject, credential = cred\<rparr>), db))"

text \<open>An \<open>authorize\<close> that records a flow under the key \<open>flow-1\<close> and resolves to a URL.\<close>

definition authorize_recording ::
  "form_value \<Rightarrow> string \<Rightarrow> DatabaseSchema \<Rightarrow> (thrown + string) \<times> DatabaseSchema" where
  "authorize_recording handle scope db =
     (case StateStore_set bool_JSON ''flow-1'' True db of
        Inl err \<Rightarrow> (Inl err, db)
      | Inr db' \<Rightarrow> (Inr ''https://pds.example/oauth/authorize?state=flow-1'', db'))"

text \<open>An identity provider that accepts every response and names one subject.\<close>

definition exchange_accepting :: "bool \<Rightarrow> (string \<times> string) list \<Rightarrow> thrown + string \<times> bool" where
  "exchange_accepting context queryParams = Inr (''did:plc:abc123'', True)"

text \<open>\<open>URLSearchParams\<close> without percent-decoding: pairs \<open>k=v\<close> separated by \<open>&\<close>.\<close>

definition plain_URLSearchParams :: "string option \<Rightarrow> (string \<times> string) list" where
  "plain_URLSearchParams q =
     (case q of
        None \<Rightarrow> []
      | Some s \<Rightarrow>
          map (\<lambda>kv. case split (CHR ''='') kv of k # v # _ \<Rightarrow> (k, v) | [k] \<Rightarrow> (k, []) | [] \<Rightarrow> ([], []))
              (filter (\<lambda>kv. kv \<noteq> []) (split (CHR ''&'') s)))"

section \<open>Rows and keys\<close>


lemma filter_key_absent:
  "k \<notin> col ` set rows \<Longrightarrow> filter (\<lambda>r. col r = k) rows = []"
  by (induction rows) auto

lemma select_insert_same:
  assumes "\<And>old. col old = col new \<Longrightarrow> upd old new = new"
  shows "selectWhereKey col (col new) (insertOnConflictDoUpdateSet col upd new rows) = Some new"
  using assms by (induction rows) (auto simp: selectWhereKey_def)

lemma keys_insert:
  assumes "\<And>old. col old = col new \<Longrightarrow> upd old new = new"
  shows "map col (insertOnConflictDoUpdateSet col upd new rows) =
         (if col new \<in> col ` set rows then map col rows else map col rows @ [col new])"
  using assms by (induction rows) auto

lemma distinct_insert:
  assumes "\<And>old. col old = col new \<Longrightarrow> upd old new = new"
    and "distinct (map col rows)"
  shows "distinct (map col (insertOnConflictDoUpdateSet col upd new rows))"
  using assms by (simp add: keys_insert)

lemma count_insert:
  assumes "\<And>old. col old = col new \<Longrightarrow> upd old new = new"
    and "distinct (map col rows)"
  shows "length (filter (\<lambda>r. col r = col new) (insertOnConflictDoUpdateSet col upd new rows)) = 1"
  using assms
proof (induction rows)
  case Nil
  then show ?case by simp
next
  case (Cons r rs)
  show ?case
  proof (cases "col r = col new")
    case True
    with Cons.prems have "col new \<notin> col ` set rs" by auto
    then have "filter (\<lambda>r. col r = col new) rs = []" by (rule filter_key_absent)
    with True Cons.prems(1) show ?thesis by simp
  next
    case False
    with Cons show ?thesis by simp
  qed
qed

lemma select_delete:
  "selectWhereKey col k (deleteWhereKey col k rows) = None"
  by (induction rows) (auto simp: selectWhereKey_def deleteWhereKey_def)

lemma delete_absent:
  "k \<notin> col ` set rows \<Longrightarrow> deleteWhereKey col k rows = rows"
  by (induction rows) (auto simp: deleteWhereKey_def)

lemma delete_delete:
  "deleteWhereKey col k (deleteWhereKey col k rows) = deleteWhereKey col k rows"
  by (simp add: deleteWhereKey_def)

lemma distinct_delete:
  "distinct (map col rows) \<Longrightarrow> distinct (map col (deleteWhereKey col k rows))"
  by (simp add: deleteWhereKey_def distinct_map_filter)

section \<open>The stores\<close>


lemma StateStore_set_Inr:
  "auth_state db = Some rows \<Longrightarrow>
   StateStore_set J k v db =
     Inr (db\<lparr>auth_state := Some (insertOnConflictDoUpdateSet state_key
            (\<lambda>old new. old\<lparr>state := state new\<rparr>)
            \<lparr>state_key = k, state = JSON_stringify J v\<rparr> rows)\<rparr>)"
  by (simp add: StateStore_set_def)

lemma SessionStore_set_Inr:
  "auth_session db = Some rows \<Longrightarrow>
   SessionStore_set J k v db =
     Inr (db\<lparr>auth_session := Some (insertOnConflictDoUpdateSet session_key
            (\<lambda>old new. old\<lparr>session := session new\<rparr>)
            \<lparr>session_key = k, session = JSON_stringify J v\<rparr> rows)\<rparr>)"
  by (simp add: SessionStore_set_def)

lemma StateStore_set_set_get:
  assumes t: "auth_state db = Some rows" and d: "distinct (map state_key rows)"
    and rt: "JSON_parse J (JSON_stringify J v2) = Some v2"
  shows "\<exists>db1 db2. StateStore_set J k v1 db = Inr db1 \<and> StateStore_set J k v2 db1 = Inr db2 \<and>
           StateStore_get J k db2 = Inr (Some v2) \<and>
           rows_with_key state_key k (auth_state db2) = 1 \<and>
           map_option (map state_key) (auth_state db2) = map_option (map state_key) (auth_state db1)"
proof -
  let ?upd = "\<lambda>old new :: auth_state_row. old\<lparr>state := state new\<rparr>"
  let ?n1 = "\<lparr>state_key = k, state = JSON_stringify J v1\<rparr>"
  let ?n2 = "\<lparr>state_key = k, state = JSON_stringify J v2\<rparr>"
  let ?rows1 = "insertOnConflictDoUpdateSet state_key ?upd ?n1 rows"
  let ?rows2 = "insertOnConflictDoUpdateSet state_key ?upd ?n2 ?rows1"
  let ?db1 = "db\<lparr>auth_state := Some ?rows1\<rparr>"
  let ?db2 = "?db1\<lparr>auth_state := Some ?rows2\<rparr>"
  have u1: "\<And>old. state_key old = state_key ?n1 \<Longrightarrow> ?upd old ?n1 = ?n1" by simp
  have u2: "\<And>old. state_key old = state_key ?n2 \<Longrightarrow> ?upd old ?n2 = ?n2" by simp
  have s1: "StateStore_set J k v1 db = Inr ?db1"
    using t by (rule StateStore_set_Inr)
  have s2: "StateStore_set J k v2 ?db1 = Inr ?db2"
    by (rule StateStore_set_Inr) simp
  have d1: "distinct (map state_key ?rows1)"
    using u1 d by (rule distinct_insert)
  have k1: "k \<in> state_key ` set ?rows1"
  proof -
    have "map state_key ?rows1 =
      (if state_key ?n1 \<in> state_key ` set rows then map state_key rows
       else map state_key rows @ [state_key ?n1])"
      using u1 by (rule keys_insert)
    then have "k \<in> set (map state_key ?rows1)" by (simp split: if_splits)
    then show ?thesis by simp
  qed
  have sel: "selectWhereKey state_key (state_key ?n2) ?rows2 = Some ?n2"
    using u2 by (rule select_insert_same)
  have g: "StateStore_get J k ?db2 = Inr (Some v2)"
    using sel rt by (simp add: StateStore_get_def)
  have c: "length (filter (\<lambda>r. state_key r = state_key ?n2) ?rows2) = 1"
    using u2 d1 by (rule count_insert)
  have keys: "map state_key ?rows2 = map state_key ?rows1"
  proof -
    have "map state_key ?rows2 =
      (if state_key ?n2 \<in> state_key ` set ?rows1 then map state_key ?rows1
       else map state_key ?rows1 @ [state_key ?n2])"
      using u2 by (rule keys_insert)
    with k1 show ?thesis by simp
  qed
  from c have c': "rows_with_key state_key k (auth_state ?db2) = 1"
    by (simp add: rows_with_key_def)
  from s1 s2 g c' keys show ?thesis by simp
qed

lemma SessionStore_set_set_get:
  assumes t: "auth_session db = Some rows" and d: "distinct (map session_key rows)"
    and rt: "JSON_parse J (JSON_stringify J v2) = Some v2"
  shows "\<exists>db1 db2. SessionStore_set J k v1 db = Inr db1 \<and> SessionStore_set J k v2 db1 = Inr db2 \<and>
           SessionStore_get J k db2 = Inr (Some v2) \<and>
           rows_with_key session_key k (auth_session db2) = 1 \<and>
           map_option (map session_key) (auth_session db2) = map_option (map session_key) (auth_session db1)"
proof -
  let ?upd = "\<lambda>old new :: auth_session_row. old\<lparr>session := session new\<rparr>"
  let ?n1 = "\<lparr>session_key = k, session = JSON_stringify J v1\<rparr>"
  let ?n2 = "\<lparr>session_key = k, session = JSON_stringify J v2\<rparr>"
  let ?rows1 = "insertOnConflictDoUpdateSet session_key ?upd ?n1 rows"
  let ?rows2 = "insertOnConflictDoUpdateSet session_key ?upd ?n2 ?rows1"
  let ?db1 = "db\<lparr>auth_session := Some ?rows1\<rparr>"
  let ?db2 = "?db1\<lparr>auth_session := Some ?rows2\<rparr>"
  have u1: "\<And>old. session_key old = session_key ?n1 \<Longrightarrow> ?upd old ?n1 = ?n1" by simp
  have u2: "\<And>old. session_key old = session_key ?n2 \<Longrightarrow> ?upd old ?n2 = ?n2" by simp
  have s1: "SessionStore_set J k v1 db = Inr ?db1"
    using t by (rule SessionStore_set_Inr)
  have s2: "SessionStore_set J k v2 ?db1 = Inr ?db2"
    by (rule SessionStore_set_Inr) simp
  have d1: "distinct (map session_key ?rows1)"
    using u1 d by (rule distinct_insert)
  have k1: "k \<in> session_key ` set ?rows1"
  proof -
    have "map session_key ?rows1 =
      (if session_key ?n1 \<in> session_key ` set rows then map session_key rows
       else map session_key rows @ [session_key ?n1])"
      using u1 by (rule keys_insert)
    then have "k \<in> set (map session_key ?rows1)" by (simp split: if_splits)
    then show ?thesis by simp
  qed
  have sel: "selectWhereKey session_key (session_key ?n2) ?rows2 = Some ?n2"
    using u2 by (rule select_insert_same)
  have g: "SessionStore_get J k ?db2 = Inr (Some v2)"
    using sel rt by (simp add: SessionStore_get_def)
  have c: "length (filter (\<lambda>r. session_key r = session_key ?n2) ?rows2) = 1"
    using u2 d1 by (rule count_insert)
  have keys: "map session_key ?rows2 = map session_key ?rows1"
  proof -
    have "map session_key ?rows2 =
      (if session_key ?n2 \<in> session_key ` set ?rows1 then map session_key ?rows1
       else map session_key ?rows1 @ [session_key ?n2])"
      using u2 by (rule keys_insert)
    with k1 show ?thesis by simp
  qed
  from c have c': "rows_with_key session_key k (auth_session ?db2) = 1"
    by (simp add: rows_with_key_def)
  from s1 s2 g c' keys show ?thesis by simp
qed

lemma tables_existE:
  assumes "tables_exist db"
  obtains rows rows' where "auth_state db = Some rows" "auth_session db = Some rows'"
  using assms by (auto simp: tables_exist_def)

section \<open>The primary keys stay unique\<close>


lemma migrated_tables:
  "migrateToLatest createDb = Inr \<lparr>auth_state = Some [], auth_session = Some []\<rparr>"
  by (simp add: migrateToLatest_def migration_001_up_def createDb_def)

lemma migrated_invariant:
  "primary_keys_unique \<lparr>auth_state = Some [], auth_session = Some []\<rparr> \<and>
   tables_exist \<lparr>auth_state = Some [], auth_session = Some []\<rparr>"
  by (simp add: primary_keys_unique_def tables_exist_def)

lemma StateStore_set_invariant:
  assumes "primary_keys_unique db" and "StateStore_set J k v db = Inr db'"
  shows "primary_keys_unique db'"
proof -
  from assms(2) obtain rows where t: "auth_state db = Some rows"
    and db': "db' = db\<lparr>auth_state := Some (insertOnConflictDoUpdateSet state_key
            (\<lambda>old new. old\<lparr>state := state new\<rparr>)
            \<lparr>state_key = k, state = JSON_stringify J v\<rparr> rows)\<rparr>"
    by (auto simp: StateStore_set_def Let_def split: option.splits)
  from assms(1) t have "distinct (map state_key rows)"
    by (simp add: primary_keys_unique_def)
  then have "distinct (map state_key (insertOnConflictDoUpdateSet state_key
            (\<lambda>old new. old\<lparr>state := state new\<rparr>)
            \<lparr>state_key = k, state = JSON_stringify J v\<rparr> rows))"
    by (intro distinct_insert) simp_all
  with assms(1) db' show ?thesis
    by (simp add: primary_keys_unique_def)
qed

lemma SessionStore_set_invariant:
  assumes "primary_keys_unique db" and "SessionStore_set J k v db = Inr db'"
  shows "primary_keys_unique db'"
proof -
  from assms(2) obtain rows where t: "auth_session db = Some rows"
    and db': "db' = db\<lparr>auth_session := Some (insertOnConflictDoUpdateSet session_key
            (\<lambda>old new. old\<lparr>session := session new\<rparr>)
            \<lparr>session_key = k, session = JSON_stringify J v\<rparr> rows)\<rparr>"
    by (auto simp: SessionStore_set_def Let_def split: option.splits)
  from assms(1) t have "distinct (map session_key rows)"
    by (simp add: primary_keys_unique_def)
  then have "distinct (map session_key (insertOnConflictDoUpdateSet session_key
            (\<lambda>old new. old\<lparr>session := session new\<rparr>)
            \<lparr>session_key = k, session = JSON_stringify J v\<rparr> rows))"
    by (intro distinct_insert) simp_all
  with assms(1) db' show ?thesis
    by (simp add: primary_keys_unique_def)
qed

lemma StateStore_del_invariant:
  "primary_keys_unique db \<Longrightarrow> StateStore_del k db = Inr db' \<Longrightarrow> primary_keys_unique db'"
  by (auto simp: StateStore_del_def primary_keys_unique_def distinct_delete split: option.splits)

lemma SessionStore_del_invariant:
  "primary_keys_unique db \<Longrightarrow> SessionStore_del k db = Inr db' \<Longrightarrow> primary_keys_unique db'"
  by (auto simp: SessionStore_del_def primary_keys_unique_def distinct_delete split: option.splits)

section \<open>Claims\<close>

text \<open>
  C1.  On a database whose tables exist and hold no key twice, and for values that
  \<open>JSON.parse\<close> reads back from \<open>JSON.stringify\<close>: \<open>set(k, v1)\<close>, then \<open>set(k, v2)\<close>, then
  \<open>get(k)\<close> returns \<open>v2\<close>, for StateStore and for SessionStore.  Each \<open>set\<close> is the one
  insert-or-update statement; after the second, exactly one row holds \<open>k\<close> and the keys of the
  table stand as the first \<open>set\<close> left them (the value is replaced in place).
\<close>

theorem set_set_get_second_value:
  assumes pk: "primary_keys_unique db" and ex: "tables_exist db"
    and rs: "JSON_parse JS (JSON_stringify JS s2) = Some s2"
    and rc: "JSON_parse JC (JSON_stringify JC c2) = Some c2"
  shows
    "(\<exists>db1 db2. StateStore_set JS k s1 db = Inr db1 \<and> StateStore_set JS k s2 db1 = Inr db2 \<and>
        StateStore_get JS k db2 = Inr (Some s2) \<and>
        rows_with_key state_key k (auth_state db2) = 1 \<and>
        map_option (map state_key) (auth_state db2) = map_option (map state_key) (auth_state db1)) \<and>
     (\<exists>db1 db2. SessionStore_set JC k c1 db = Inr db1 \<and> SessionStore_set JC k c2 db1 = Inr db2 \<and>
        SessionStore_get JC k db2 = Inr (Some c2) \<and>
        rows_with_key session_key k (auth_session db2) = 1 \<and>
        map_option (map session_key) (auth_session db2) = map_option (map session_key) (auth_session db1))"
proof -
  from ex obtain rows rows' where t: "auth_state db = Some rows" and t': "auth_session db = Some rows'"
    by (rule tables_existE)
  from pk t have d: "distinct (map state_key rows)"
    by (simp add: primary_keys_unique_def)
  from pk t' have d': "distinct (map session_key rows')"
    by (simp add: primary_keys_unique_def)
  from StateStore_set_set_get [OF t d rs] SessionStore_set_set_get [OF t' d' rc]
  show ?thesis by (rule conjI)
qed

theorem set_set_get_second_value_witness:
  "primary_keys_unique \<lparr>auth_state = Some [\<lparr>state_key = ''flow-1'', state = ''true''\<rparr>], auth_session = Some []\<rparr> \<and>
   tables_exist \<lparr>auth_state = Some [\<lparr>state_key = ''flow-1'', state = ''true''\<rparr>], auth_session = Some []\<rparr> \<and>
   JSON_parse bool_JSON (JSON_stringify bool_JSON False) = Some False \<and>
   (\<exists>db1 db2.
      StateStore_set bool_JSON ''flow-1'' True
        \<lparr>auth_state = Some [\<lparr>state_key = ''flow-1'', state = ''true''\<rparr>], auth_session = Some []\<rparr> = Inr db1 \<and>
      StateStore_set bool_JSON ''flow-1'' False db1 = Inr db2 \<and>
      StateStore_get bool_JSON ''flow-1'' db2 = Inr (Some False) \<and>
      rows_with_key state_key ''flow-1'' (auth_state db2) = 1) \<and>
   (\<exists>db1 db2.
      SessionStore_set bool_JSON ''flow-1'' True
        \<lparr>auth_state = Some [\<lparr>state_key = ''flow-1'', state = ''true''\<rparr>], auth_session = Some []\<rparr> = Inr db1 \<and>
      SessionStore_set bool_JSON ''flow-1'' False db1 = Inr db2 \<and>
      SessionStore_get bool_JSON ''flow-1'' db2 = Inr (Some False) \<and>
      rows_with_key session_key ''flow-1'' (auth_session db2) = 1)"
proof -
  let ?db = "\<lparr>auth_state = Some [\<lparr>state_key = ''flow-1'', state = ''true''\<rparr>], auth_session = Some []\<rparr>"
  have pk: "primary_keys_unique ?db" by (simp add: primary_keys_unique_def)
  have ex: "tables_exist ?db" by (simp add: tables_exist_def)
  have rt: "JSON_parse bool_JSON (JSON_stringify bool_JSON False) = Some False"
    by (simp add: bool_JSON_def)
  from set_set_get_second_value [OF pk ex rt rt, of "''flow-1''" True True]
  show ?thesis using pk ex rt by blast
qed

text \<open>
  C8.  With the tables created: \<open>del(k)\<close> for a key \<open>k\<close> that no row holds succeeds and returns
  the database as it was, for both stores; and for every key, \<open>del(k)\<close> succeeds and a second
  \<open>del(k)\<close> changes nothing more.
\<close>

theorem del_absent_unchanged_idempotent:
  assumes ex: "tables_exist db"
  shows
    "(rows_with_key state_key k (auth_state db) = 0 \<longrightarrow> StateStore_del k db = Inr db) \<and>
     (rows_with_key session_key k (auth_session db) = 0 \<longrightarrow> SessionStore_del k db = Inr db) \<and>
     (\<exists>db1. StateStore_del k db = Inr db1 \<and> StateStore_del k db1 = Inr db1) \<and>
     (\<exists>db1. SessionStore_del k db = Inr db1 \<and> SessionStore_del k db1 = Inr db1)"
proof -
  from ex obtain rows rows' where t: "auth_state db = Some rows" and t': "auth_session db = Some rows'"
    by (rule tables_existE)
  have a: "rows_with_key state_key k (auth_state db) = 0 \<longrightarrow> StateStore_del k db = Inr db"
  proof
    assume "rows_with_key state_key k (auth_state db) = 0"
    with t have "filter (\<lambda>r. state_key r = k) rows = []" by (simp add: rows_with_key_def)
    then have "k \<notin> state_key ` set rows" by (auto simp: filter_empty_conv)
    then have "deleteWhereKey state_key k rows = rows" by (rule delete_absent)
    with t show "StateStore_del k db = Inr db" by (simp add: StateStore_del_def)
  qed
  have b: "rows_with_key session_key k (auth_session db) = 0 \<longrightarrow> SessionStore_del k db = Inr db"
  proof
    assume "rows_with_key session_key k (auth_session db) = 0"
    with t' have "filter (\<lambda>r. session_key r = k) rows' = []" by (simp add: rows_with_key_def)
    then have "k \<notin> session_key ` set rows'" by (auto simp: filter_empty_conv)
    then have "deleteWhereKey session_key k rows' = rows'" by (rule delete_absent)
    with t' show "SessionStore_del k db = Inr db" by (simp add: SessionStore_del_def)
  qed
  have c: "\<exists>db1. StateStore_del k db = Inr db1 \<and> StateStore_del k db1 = Inr db1"
    using t by (simp add: StateStore_del_def delete_delete)
  have d: "\<exists>db1. SessionStore_del k db = Inr db1 \<and> SessionStore_del k db1 = Inr db1"
    using t' by (simp add: SessionStore_del_def delete_delete)
  from a b c d show ?thesis by simp
qed

theorem del_absent_unchanged_idempotent_witness:
  "tables_exist \<lparr>auth_state = Some [\<lparr>state_key = ''flow-1'', state = ''true''\<rparr>],
                 auth_session = Some [\<lparr>session_key = ''did:plc:abc123'', session = ''false''\<rparr>]\<rparr> \<and>
   rows_with_key state_key ''flow-2'' (Some [\<lparr>state_key = ''flow-1'', state = ''true''\<rparr>]) = 0 \<and>
   rows_with_key session_key ''flow-2'' (Some [\<lparr>session_key = ''did:plc:abc123'', session = ''false''\<rparr>]) = 0 \<and>
   StateStore_del ''flow-2''
     \<lparr>auth_state = Some [\<lparr>state_key = ''flow-1'', state = ''true''\<rparr>],
      auth_session = Some [\<lparr>session_key = ''did:plc:abc123'', session = ''false''\<rparr>]\<rparr> =
   Inr \<lparr>auth_state = Some [\<lparr>state_key = ''flow-1'', state = ''true''\<rparr>],
        auth_session = Some [\<lparr>session_key = ''did:plc:abc123'', session = ''false''\<rparr>]\<rparr> \<and>
   SessionStore_del ''flow-2''
     \<lparr>auth_state = Some [\<lparr>state_key = ''flow-1'', state = ''true''\<rparr>],
      auth_session = Some [\<lparr>session_key = ''did:plc:abc123'', session = ''false''\<rparr>]\<rparr> =
   Inr \<lparr>auth_state = Some [\<lparr>state_key = ''flow-1'', state = ''true''\<rparr>],
        auth_session = Some [\<lparr>session_key = ''did:plc:abc123'', session = ''false''\<rparr>]\<rparr>"
proof -
  let ?db = "\<lparr>auth_state = Some [\<lparr>state_key = ''flow-1'', state = ''true''\<rparr>],
              auth_session = Some [\<lparr>session_key = ''did:plc:abc123'', session = ''false''\<rparr>]\<rparr>"
  have ex: "tables_exist ?db" by (simp add: tables_exist_def)
  have a: "rows_with_key state_key ''flow-2'' (Some [\<lparr>state_key = ''flow-1'', state = ''true''\<rparr>]) = 0"
    by (simp add: rows_with_key_def)
  have b: "rows_with_key session_key ''flow-2'' (Some [\<lparr>session_key = ''did:plc:abc123'', session = ''false''\<rparr>]) = 0"
    by (simp add: rows_with_key_def)
  from del_absent_unchanged_idempotent [OF ex, of "''flow-2''"] a b
  have "StateStore_del ''flow-2'' ?db = Inr ?db" "SessionStore_del ''flow-2'' ?db = Inr ?db"
    by simp_all
  with ex a b show ?thesis by simp
qed

text \<open>
  C10.  The StateStore operations neither read nor write \<open>auth_session\<close>: their outcome is
  the same whatever \<open>auth_session\<close> holds, and \<open>set\<close> and \<open>del\<close> leave it as it was.  The
  SessionStore operations neither read nor write \<open>auth_state\<close>.
\<close>

theorem stores_touch_their_own_table_only:
  "(\<forall>t. StateStore_get JS k (db\<lparr>auth_session := t\<rparr>) = StateStore_get JS k db) \<and>
   (\<forall>t. StateStore_set JS k s (db\<lparr>auth_session := t\<rparr>) =
          map_sum id (\<lambda>d. d\<lparr>auth_session := t\<rparr>) (StateStore_set JS k s db)) \<and>
   (\<forall>t. StateStore_del k (db\<lparr>auth_session := t\<rparr>) =
          map_sum id (\<lambda>d. d\<lparr>auth_session := t\<rparr>) (StateStore_del k db)) \<and>
   (StateStore_set JS k s db = Inr db1 \<longrightarrow> auth_session db1 = auth_session db) \<and>
   (StateStore_del k db = Inr db2 \<longrightarrow> auth_session db2 = auth_session db) \<and>
   (\<forall>t. SessionStore_get JC k (db\<lparr>auth_state := t\<rparr>) = SessionStore_get JC k db) \<and>
   (\<forall>t. SessionStore_set JC k c (db\<lparr>auth_state := t\<rparr>) =
          map_sum id (\<lambda>d. d\<lparr>auth_state := t\<rparr>) (SessionStore_set JC k c db)) \<and>
   (\<forall>t. SessionStore_del k (db\<lparr>auth_state := t\<rparr>) =
          map_sum id (\<lambda>d. d\<lparr>auth_state := t\<rparr>) (SessionStore_del k db)) \<and>
   (SessionStore_set JC k c db = Inr db3 \<longrightarrow> auth_state db3 = auth_state db) \<and>
   (SessionStore_del k db = Inr db4 \<longrightarrow> auth_state db4 = auth_state db)"
proof -
  have g: "\<forall>t. StateStore_get JS k (db\<lparr>auth_session := t\<rparr>) = StateStore_get JS k db"
    by (simp add: StateStore_get_def)
  have s: "\<forall>t. StateStore_set JS k s (db\<lparr>auth_session := t\<rparr>) =
          map_sum id (\<lambda>d. d\<lparr>auth_session := t\<rparr>) (StateStore_set JS k s db)"
    by (simp add: StateStore_set_def Let_def split: option.split)
  have d: "\<forall>t. StateStore_del k (db\<lparr>auth_session := t\<rparr>) =
          map_sum id (\<lambda>d. d\<lparr>auth_session := t\<rparr>) (StateStore_del k db)"
    by (simp add: StateStore_del_def split: option.split)
  have s1: "StateStore_set JS k s db = Inr db1 \<longrightarrow> auth_session db1 = auth_session db"
    by (auto simp: StateStore_set_def Let_def split: option.splits)
  have d1: "StateStore_del k db = Inr db2 \<longrightarrow> auth_session db2 = auth_session db"
    by (auto simp: StateStore_del_def split: option.splits)
  have g': "\<forall>t. SessionStore_get JC k (db\<lparr>auth_state := t\<rparr>) = SessionStore_get JC k db"
    by (simp add: SessionStore_get_def)
  have s': "\<forall>t. SessionStore_set JC k c (db\<lparr>auth_state := t\<rparr>) =
          map_sum id (\<lambda>d. d\<lparr>auth_state := t\<rparr>) (SessionStore_set JC k c db)"
    by (simp add: SessionStore_set_def Let_def split: option.split)
  have d': "\<forall>t. SessionStore_del k (db\<lparr>auth_state := t\<rparr>) =
          map_sum id (\<lambda>d. d\<lparr>auth_state := t\<rparr>) (SessionStore_del k db)"
    by (simp add: SessionStore_del_def split: option.split)
  have s1': "SessionStore_set JC k c db = Inr db3 \<longrightarrow> auth_state db3 = auth_state db"
    by (auto simp: SessionStore_set_def Let_def split: option.splits)
  have d1': "SessionStore_del k db = Inr db4 \<longrightarrow> auth_state db4 = auth_state db"
    by (auto simp: SessionStore_del_def split: option.splits)
  from g s d s1 d1 g' s' d' s1' d1' show ?thesis by blast
qed

theorem stores_touch_their_own_table_only_witness:
  "StateStore_set bool_JSON ''flow-1'' True
     \<lparr>auth_state = Some [], auth_session = Some [\<lparr>session_key = ''did:plc:abc123'', session = ''true''\<rparr>]\<rparr> =
   Inr \<lparr>auth_state = Some [\<lparr>state_key = ''flow-1'', state = ''true''\<rparr>],
        auth_session = Some [\<lparr>session_key = ''did:plc:abc123'', session = ''true''\<rparr>]\<rparr> \<and>
   StateStore_del ''flow-1''
     \<lparr>auth_state = Some [], auth_session = Some [\<lparr>session_key = ''did:plc:abc123'', session = ''true''\<rparr>]\<rparr> =
   Inr \<lparr>auth_state = Some [], auth_session = Some [\<lparr>session_key = ''did:plc:abc123'', session = ''true''\<rparr>]\<rparr> \<and>
   SessionStore_set bool_JSON ''flow-1'' False
     \<lparr>auth_state = Some [], auth_session = Some [\<lparr>session_key = ''did:plc:abc123'', session = ''true''\<rparr>]\<rparr> =
   Inr \<lparr>auth_state = Some [],
        auth_session = Some [\<lparr>session_key = ''did:plc:abc123'', session = ''true''\<rparr>,
                             \<lparr>session_key = ''flow-1'', session = ''false''\<rparr>]\<rparr> \<and>
   SessionStore_del ''flow-1''
     \<lparr>auth_state = Some [], auth_session = Some [\<lparr>session_key = ''did:plc:abc123'', session = ''true''\<rparr>]\<rparr> =
   Inr \<lparr>auth_state = Some [], auth_session = Some [\<lparr>session_key = ''did:plc:abc123'', session = ''true''\<rparr>]\<rparr> \<and>
   auth_session \<lparr>auth_state = Some [\<lparr>state_key = ''flow-1'', state = ''true''\<rparr>],
        auth_session = Some [\<lparr>session_key = ''did:plc:abc123'', session = ''true''\<rparr>]\<rparr> =
     auth_session \<lparr>auth_state = Some [], auth_session = Some [\<lparr>session_key = ''did:plc:abc123'', session = ''true''\<rparr>]\<rparr> \<and>
   auth_state \<lparr>auth_state = Some [],
        auth_session = Some [\<lparr>session_key = ''did:plc:abc123'', session = ''true''\<rparr>,
                             \<lparr>session_key = ''flow-1'', session = ''false''\<rparr>]\<rparr> =
     auth_state \<lparr>auth_state = Some [], auth_session = Some [\<lparr>session_key = ''did:plc:abc123'', session = ''true''\<rparr>]\<rparr>"
proof -
  let ?db = "\<lparr>auth_state = Some [], auth_session = Some [\<lparr>session_key = ''did:plc:abc123'', session = ''true''\<rparr>]\<rparr>"
  let ?db1 = "\<lparr>auth_state = Some [\<lparr>state_key = ''flow-1'', state = ''true''\<rparr>],
        auth_session = Some [\<lparr>session_key = ''did:plc:abc123'', session = ''true''\<rparr>]\<rparr>"
  let ?db3 = "\<lparr>auth_state = Some [],
        auth_session = Some [\<lparr>session_key = ''did:plc:abc123'', session = ''true''\<rparr>,
                             \<lparr>session_key = ''flow-1'', session = ''false''\<rparr>]\<rparr>"
  have h1: "StateStore_set bool_JSON ''flow-1'' True ?db = Inr ?db1"
    by (simp add: StateStore_set_def bool_JSON_def)
  have h2: "StateStore_del ''flow-1'' ?db = Inr ?db"
    by (simp add: StateStore_del_def deleteWhereKey_def)
  have h3: "SessionStore_set bool_JSON ''flow-1'' False ?db = Inr ?db3"
    by (simp add: SessionStore_set_def bool_JSON_def)
  have h4: "SessionStore_del ''flow-1'' ?db = Inr ?db"
    by (simp add: SessionStore_del_def deleteWhereKey_def)
  from stores_touch_their_own_table_only
    [of bool_JSON "''flow-1''" ?db True ?db1 ?db bool_JSON False ?db3 ?db]
  have "auth_session ?db1 = auth_session ?db" "auth_state ?db3 = auth_state ?db"
    using h1 h2 h3 h4 by blast+
  with h1 h2 h3 h4 show ?thesis by blast
qed



text \<open>
  C2.  When \<open>completeCallback\<close> succeeds, the parameters named a flow whose record was in
  \<open>auth_state\<close>; afterwards no row holds that flow identifier, and a second call with the same
  parameters on the resulting database fails with \<open>UnknownOrConsumedFlow\<close>, returns no
  credential and leaves the database as it is.
\<close>

theorem callback_flow_single_use:
  assumes ok: "completeCallback JS JC exchange params db = (Inr r, db')"
  shows "\<exists>flow. map_of params ''state'' = Some flow \<and>
           0 < rows_with_key state_key flow (auth_state db) \<and>
           rows_with_key state_key flow (auth_state db') = 0 \<and>
           completeCallback JS JC exchange params db' = (Inl (Error UnknownOrConsumedFlow flow), db')"
proof -
  from ok obtain flow ctx db1 subject cred where
    f: "map_of params ''state'' = Some flow" and
    g: "StateStore_get JS flow db = Inr (Some ctx)" and
    d: "StateStore_del flow db = Inr db1" and
    s: "SessionStore_set JC subject cred db1 = Inr db'"
    by (auto simp: completeCallback_def split: option.splits sum.splits prod.splits)
  from d obtain rows where t: "auth_state db = Some rows"
    and db1: "db1 = db\<lparr>auth_state := Some (deleteWhereKey state_key flow rows)\<rparr>"
    by (auto simp: StateStore_del_def split: option.splits)
  from s have "auth_state db' = auth_state db1"
    by (auto simp: SessionStore_set_def Let_def split: option.splits)
  with db1 have a: "auth_state db' = Some (deleteWhereKey state_key flow rows)"
    by simp
  from g t have "selectWhereKey state_key flow rows \<noteq> None"
    by (auto simp: StateStore_get_def split: option.splits)
  then have "filter (\<lambda>r. state_key r = flow) rows \<noteq> []"
    by (auto simp: selectWhereKey_def find_None_iff filter_empty_conv)
  with t have before: "0 < rows_with_key state_key flow (auth_state db)"
    by (simp add: rows_with_key_def)
  have "filter (\<lambda>r. state_key r = flow) (deleteWhereKey state_key flow rows) = []"
    by (simp add: deleteWhereKey_def)
  with a have after: "rows_with_key state_key flow (auth_state db') = 0"
    by (simp add: rows_with_key_def)
  have "selectWhereKey state_key flow (deleteWhereKey state_key flow rows) = None"
    by (rule select_delete)
  with a have "StateStore_get JS flow db' = Inr None"
    by (simp add: StateStore_get_def)
  with f have again:
    "completeCallback JS JC exchange params db' = (Inl (Error UnknownOrConsumedFlow flow), db')"
    by (simp add: completeCallback_def)
  from f before after again show ?thesis by blast
qed

theorem callback_flow_single_use_witness:
  "completeCallback bool_JSON bool_JSON exchange_accepting [(''state'', ''flow-1''), (''code'', ''abc'')]
     \<lparr>auth_state = Some [\<lparr>state_key = ''flow-1'', state = ''true''\<rparr>], auth_session = Some []\<rparr> =
   (Inr \<lparr>oauth_did = ''did:plc:abc123'', credential = True\<rparr>,
    \<lparr>auth_state = Some [], auth_session = Some [\<lparr>session_key = ''did:plc:abc123'', session = ''true''\<rparr>]\<rparr>) \<and>
   completeCallback bool_JSON bool_JSON exchange_accepting [(''state'', ''flow-1''), (''code'', ''abc'')]
     \<lparr>auth_state = Some [], auth_session = Some [\<lparr>session_key = ''did:plc:abc123'', session = ''true''\<rparr>]\<rparr> =
   (Inl (Error UnknownOrConsumedFlow ''flow-1''),
    \<lparr>auth_state = Some [], auth_session = Some [\<lparr>session_key = ''did:plc:abc123'', session = ''true''\<rparr>]\<rparr>)"
proof -
  let ?p = "[(''state'', ''flow-1''), (''code'', ''abc'')]"
  let ?db = "\<lparr>auth_state = Some [\<lparr>state_key = ''flow-1'', state = ''true''\<rparr>], auth_session = Some []\<rparr>"
  let ?db' = "\<lparr>auth_state = Some [], auth_session = Some [\<lparr>session_key = ''did:plc:abc123'', session = ''true''\<rparr>]\<rparr>"
  have h: "completeCallback bool_JSON bool_JSON exchange_accepting ?p ?db =
      (Inr \<lparr>oauth_did = ''did:plc:abc123'', credential = True\<rparr>, ?db')"
    by (simp add: completeCallback_def StateStore_get_def StateStore_del_def SessionStore_set_def
        selectWhereKey_def deleteWhereKey_def bool_JSON_def exchange_accepting_def)
  from callback_flow_single_use [OF h] obtain flow where
    "map_of ?p ''state'' = Some flow"
    "completeCallback bool_JSON bool_JSON exchange_accepting ?p ?db' =
       (Inl (Error UnknownOrConsumedFlow flow), ?db')"
    by blast
  then have "completeCallback bool_JSON bool_JSON exchange_accepting ?p ?db' =
       (Inl (Error UnknownOrConsumedFlow ''flow-1''), ?db')"
    by simp
  with h show ?thesis by (rule conjI)
qed

text \<open>
  C3, as stated, fails: with a subject bound in the cookie and a \<open>restore\<close> that rejects
  because the storage is unreachable, \<open>getSessionAgent\<close> returns \<open>null\<close> (and clears the
  cookie); the error does not reach the caller.
\<close>

theorem restore_infrastructure_failure_counterexample:
  "getSessionAgent plain_iron development_secret restore_unreachable
     \<lparr>originalUrl = ''/'', body = None, cookie_header = Some ''did:plc:abc123''\<rparr>
     new_Response \<lparr>auth_state = Some [], auth_session = Some []\<rparr> =
   (Inr None, new_Response\<lparr>set_cookie := Some ClearedCookie\<rparr>,
    \<lparr>auth_state = Some [], auth_session = Some []\<rparr>)"
  by (simp add: getSessionAgent_def getSession_def plain_iron_def restore_unreachable_def
      session_destroy_def)

text \<open>
  C3, amended.  Once \<open>getSession\<close> has resolved: with no subject in the cookie
  \<open>getSessionAgent\<close> returns \<open>null\<close> and leaves response and database alone; every rejection
  of \<open>restore\<close>, an infrastructure failure included, is caught and answered with \<open>null\<close>;
  and \<open>getSessionAgent\<close> never throws.
\<close>

theorem getSessionAgent_never_throws_after_getSession:
  assumes gs: "getSession getIronSession secret req = Inr s"
  shows "(\<not> truthy (did s) \<longrightarrow>
            getSessionAgent getIronSession secret restore req res db = (Inr None, res, db)) \<and>
         (\<forall>d err db'. did s = Some d \<and> d \<noteq> [] \<and> restore d db = (Inl err, db') \<longrightarrow>
            fst (getSessionAgent getIronSession secret restore req res db) = Inr None) \<and>
         (\<exists>agent. fst (getSessionAgent getIronSession secret restore req res db) = Inr agent)"
proof -
  have a: "\<not> truthy (did s) \<longrightarrow>
            getSessionAgent getIronSession secret restore req res db = (Inr None, res, db)"
    using gs by (simp add: getSessionAgent_def)
  have b: "\<forall>d err db'. did s = Some d \<and> d \<noteq> [] \<and> restore d db = (Inl err, db') \<longrightarrow>
            fst (getSessionAgent getIronSession secret restore req res db) = Inr None"
    using gs by (simp add: getSessionAgent_def)
  have c: "\<exists>agent. fst (getSessionAgent getIronSession secret restore req res db) = Inr agent"
    using gs by (simp add: getSessionAgent_def split: option.split sum.split prod.split)
  from a b c show ?thesis by blast
qed

theorem getSessionAgent_never_throws_after_getSession_witness:
  "getSession plain_iron development_secret
     \<lparr>originalUrl = ''/'', body = None, cookie_header = Some ''did:plc:abc123''\<rparr> =
     Inr \<lparr>did = Some ''did:plc:abc123''\<rparr> \<and>
   restore_unreachable ''did:plc:abc123'' \<lparr>auth_state = Some [], auth_session = Some []\<rparr> =
     (Inl (Error InfrastructureError ''storage unreachable''), \<lparr>auth_state = Some [], auth_session = Some []\<rparr>) \<and>
   fst (getSessionAgent plain_iron development_secret restore_unreachable
     \<lparr>originalUrl = ''/'', body = None, cookie_header = Some ''did:plc:abc123''\<rparr>
     new_Response \<lparr>auth_state = Some [], auth_session = Some []\<rparr>) = Inr None"
proof -
  let ?req = "\<lparr>originalUrl = ''/'', body = None, cookie_header = Some ''did:plc:abc123''\<rparr>"
  let ?db = "\<lparr>auth_state = Some [], auth_session = Some []\<rparr>"
  have gs: "getSession plain_iron development_secret ?req = Inr \<lparr>did = Some ''did:plc:abc123''\<rparr>"
    by (simp add: getSession_def plain_iron_def)
  have r: "restore_unreachable ''did:plc:abc123'' ?db =
     (Inl (Error InfrastructureError ''storage unreachable''), ?db)"
    by (simp add: restore_unreachable_def)
  from getSessionAgent_never_throws_after_getSession [OF gs, of restore_unreachable new_Response ?db] r
  have "fst (getSessionAgent plain_iron development_secret restore_unreachable ?req new_Response ?db) = Inr None"
    by simp
  with gs r show ?thesis by blast
qed

text \<open>
  C4.  For a request whose cookie binds a subject identifier, and a \<open>restore\<close> of the
  library's declared result \<open>Promise<OAuthSession>\<close> (it resolves to a session or rejects,
  never to nothing, so that absence and failure alike are rejections): whenever \<open>restore\<close>
  delivers no credential, \<open>getSessionAgent\<close> invokes \<open>session.destroy\<close> (the response
  clears the cookie) and returns \<open>null\<close>; and whenever \<open>getSessionAgent\<close> returns \<open>null\<close>,
  the response clears the cookie.
\<close>

theorem getSessionAgent_unbinds_without_credential:
  assumes gs: "getSession getIronSession secret req = Inr s"
    and bound: "did s = Some d" "d \<noteq> []"
    and typed: "fst (restore d db) \<noteq> Inr None"
  shows "((\<forall>oauthSession. fst (restore d db) \<noteq> Inr (Some oauthSession)) \<longrightarrow>
            getSessionAgent getIronSession secret restore req res db =
              (Inr None, res\<lparr>set_cookie := Some ClearedCookie\<rparr>, snd (restore d db))) \<and>
         (fst (getSessionAgent getIronSession secret restore req res db) = Inr None \<longrightarrow>
            fst (snd (getSessionAgent getIronSession secret restore req res db)) =
              res\<lparr>set_cookie := Some ClearedCookie\<rparr>)"
proof (cases "restore d db")
  case (Pair r db')
  show ?thesis
  proof (cases r)
    case (Inl err)
    with Pair gs bound show ?thesis
      by (simp add: getSessionAgent_def session_destroy_def)
  next
    case (Inr oauthSession)
    with Pair typed obtain credential where "oauthSession = Some credential"
      by (cases oauthSession) simp_all
    with Inr Pair gs bound show ?thesis
      by (simp add: getSessionAgent_def)
  qed
qed

theorem getSessionAgent_unbinds_without_credential_witness:
  "getSession plain_iron development_secret
     \<lparr>originalUrl = ''/'', body = None, cookie_header = Some ''did:plc:abc123''\<rparr> =
     Inr \<lparr>did = Some ''did:plc:abc123''\<rparr> \<and>
   ''did:plc:abc123'' \<noteq> [] \<and>
   SessionStore_get bool_JSON ''did:plc:abc123''
     \<lparr>auth_state = Some [], auth_session = Some [\<lparr>session_key = ''did:plc:other'', session = ''true''\<rparr>]\<rparr> =
     Inr None \<and>
   restore_stored ''did:plc:abc123''
     \<lparr>auth_state = Some [], auth_session = Some [\<lparr>session_key = ''did:plc:other'', session = ''true''\<rparr>]\<rparr> =
     (Inl (Error TokenRefreshError ''The session was deleted by another process''),
      \<lparr>auth_state = Some [], auth_session = Some [\<lparr>session_key = ''did:plc:other'', session = ''true''\<rparr>]\<rparr>) \<and>
   getSessionAgent plain_iron development_secret restore_stored
     \<lparr>originalUrl = ''/'', body = None, cookie_header = Some ''did:plc:abc123''\<rparr>
     new_Response
     \<lparr>auth_state = Some [], auth_session = Some [\<lparr>session_key = ''did:plc:other'', session = ''true''\<rparr>]\<rparr> =
   (Inr None, new_Response\<lparr>set_cookie := Some ClearedCookie\<rparr>,
    \<lparr>auth_state = Some [], auth_session = Some [\<lparr>session_key = ''did:plc:other'', session = ''true''\<rparr>]\<rparr>)"
proof -
  let ?req = "\<lparr>originalUrl = ''/'', body = None, cookie_header = Some ''did:plc:abc123''\<rparr>"
  let ?db = "\<lparr>auth_state = Some [],
              auth_session = Some [\<lparr>session_key = ''did:plc:other'', session = ''true''\<rparr>]\<rparr>"
  have gs: "getSession plain_iron development_secret ?req = Inr \<lparr>did = Some ''did:plc:abc123''\<rparr>"
    by (simp add: getSession_def plain_iron_def)
  have b1: "did \<lparr>did = Some ''did:plc:abc123''\<rparr> = Some ''did:plc:abc123''" by simp
  have b2: "''did:plc:abc123'' \<noteq> []" by simp
  have g: "SessionStore_get bool_JSON ''did:plc:abc123'' ?db = Inr None"
    by (simp add: SessionStore_get_def selectWhereKey_def)
  have r: "restore_stored ''did:plc:abc123'' ?db =
      (Inl (Error TokenRefreshError ''The session was deleted by another process''), ?db)"
    by (simp add: restore_stored_def g)
  have typed: "fst (restore_stored ''did:plc:abc123'' ?db) \<noteq> Inr None"
    by (simp add: r)
  have none: "\<forall>oauthSession. fst (restore_stored ''did:plc:abc123'' ?db) \<noteq> Inr (Some oauthSession)"
    by (simp add: r)
  from getSessionAgent_unbinds_without_credential
    [where restore = restore_stored and d = "''did:plc:abc123''" and db = ?db
       and res = new_Response, OF gs b1 b2 typed] none
  have "getSessionAgent plain_iron development_secret restore_stored ?req new_Response ?db =
      (Inr None, new_Response\<lparr>set_cookie := Some ClearedCookie\<rparr>,
       snd (restore_stored ''did:plc:abc123'' ?db))"
    by blast
  then have "getSessionAgent plain_iron development_secret restore_stored ?req new_Response ?db =
      (Inr None, new_Response\<lparr>set_cookie := Some ClearedCookie\<rparr>, ?db)"
    by (simp add: r)
  with gs b2 g r show ?thesis by blast
qed

text \<open>
  C5, as stated, fails: with \<open>COOKIE_SECRET=short\<close> the server starts, holding a secret of
  5 characters.
\<close>

theorem short_secret_starts_counterexample:
  "main \<lparr>COOKIE_SECRET = Some ''short''\<rparr> =
     Inr \<lparr>app_cookieSecret = ''short'', app_db = \<lparr>auth_state = Some [], auth_session = Some []\<rparr>\<rparr> \<and>
   length ''short'' < (32::nat)"
  by (simp add: main_def migrateToLatest_def migration_001_up_def createDb_def cookieSecret_def)

text \<open>
  C5, amended.  \<open>main\<close> starts for every environment and checks no length: the secret is
  \<open>COOKIE_SECRET\<close> when that is set and not empty, and the development secret of 37
  characters otherwise; \<open>getSession\<close> hands it unchanged to \<open>getIronSession\<close> as the
  password.
\<close>

theorem startup_takes_secret_unchecked:
  "main e = Inr \<lparr>app_cookieSecret = cookieSecret e,
                 app_db = \<lparr>auth_state = Some [], auth_session = Some []\<rparr>\<rparr> \<and>
   cookieSecret e =
     (case COOKIE_SECRET e of
        None \<Rightarrow> development_secret
      | Some s \<Rightarrow> if s = [] then development_secret else s) \<and>
   length development_secret = 37 \<and>
   getSession getIronSession (cookieSecret e) req =
     getIronSession req \<lparr>cookieName = ''sid'', password = cookieSecret e\<rparr>"
proof -
  have m: "main e = Inr \<lparr>app_cookieSecret = cookieSecret e,
                 app_db = \<lparr>auth_state = Some [], auth_session = Some []\<rparr>\<rparr>"
    by (simp add: main_def migrateToLatest_def migration_001_up_def createDb_def)
  have c: "cookieSecret e =
     (case COOKIE_SECRET e of
        None \<Rightarrow> development_secret
      | Some s \<Rightarrow> if s = [] then development_secret else s)"
    by (simp add: cookieSecret_def split: option.split)
  have l: "length development_secret = 37"
    by (simp add: development_secret_def)
  have g: "getSession getIronSession (cookieSecret e) req =
     getIronSession req \<lparr>cookieName = ''sid'', password = cookieSecret e\<rparr>"
    by (simp add: getSession_def)
  from m c l g show ?thesis by simp
qed

text \<open>
  C6.  A \<open>POST /login\<close> whose body is missing, has no field \<open>handle\<close> or has the empty
  string there is answered with 400 and "Handle is required"; the response and the database
  do not depend on \<open>authorize\<close>, and the database is returned as it was.
\<close>

theorem login_without_handle:
  assumes "body req = None \<or>
           (\<exists>b. body req = Some b \<and> (b ''handle'' = None \<or> b ''handle'' = Some (FString [])))"
  shows "post_login authorize req res db =
           (res\<lparr>statusCode := 400, sent := Some ''Handle is required''\<rparr>, db)"
  using assms by (auto simp: post_login_def res_send_def res_status_def)

theorem login_without_handle_witness:
  "body \<lparr>originalUrl = ''/login'', body = Some (\<lambda>f. if f = ''handle'' then Some (FString []) else None),
         cookie_header = None\<rparr> =
     Some (\<lambda>f. if f = ''handle'' then Some (FString []) else None) \<and>
   (\<lambda>f. if f = ''handle'' then Some (FString []) else None) ''handle'' = Some (FString []) \<and>
   post_login authorize_recording
     \<lparr>originalUrl = ''/login'', body = Some (\<lambda>f. if f = ''handle'' then Some (FString []) else None),
      cookie_header = None\<rparr>
     new_Response \<lparr>auth_state = Some [], auth_session = Some []\<rparr> =
   (\<lparr>statusCode = 400, location = None, sent = Some ''Handle is required'', set_cookie = None\<rparr>,
    \<lparr>auth_state = Some [], auth_session = Some []\<rparr>) \<and>
   snd (authorize_recording (FString ''alice.example'') ''atproto transition:generic''
          \<lparr>auth_state = Some [], auth_session = Some []\<rparr>) =
     \<lparr>auth_state = Some [\<lparr>state_key = ''flow-1'', state = ''true''\<rparr>], auth_session = Some []\<rparr>"
proof -
  let ?b = "\<lambda>f. if f = ''handle'' then Some (FString []) else None"
  let ?req = "\<lparr>originalUrl = ''/login'', body = Some ?b, cookie_header = None\<rparr>"
  let ?db = "\<lparr>auth_state = Some [], auth_session = Some []\<rparr>"
  have h1: "body ?req = Some ?b" by simp
  have h2: "?b ''handle'' = Some (FString [])" by simp
  have h: "body ?req = None \<or>
           (\<exists>b. body ?req = Some b \<and> (b ''handle'' = None \<or> b ''handle'' = Some (FString [])))"
    using h2 by simp
  have a: "snd (authorize_recording (FString ''alice.example'') ''atproto transition:generic'' ?db) =
     \<lparr>auth_state = Some [\<lparr>state_key = ''flow-1'', state = ''true''\<rparr>], auth_session = Some []\<rparr>"
    by (simp add: authorize_recording_def StateStore_set_def bool_JSON_def)
  from login_without_handle [OF h, of authorize_recording new_Response ?db]
  have "post_login authorize_recording ?req new_Response ?db =
     (\<lparr>statusCode = 400, location = None, sent = Some ''Handle is required'', set_cookie = None\<rparr>, ?db)"
    by (simp add: new_Response_def)
  with h1 h2 a show ?thesis by blast
qed

text \<open>
  C7.  \<open>POST /logout\<close>, whatever subject the session holds: the response clears the cookie
  and redirects to \<open>/\<close>; the database, and with it what SessionStore reads for any subject,
  is unchanged.
\<close>

theorem logout_unbinds_and_keeps_credential:
  "(getSession getIronSession secret req = Inr s \<longrightarrow>
      post_logout getIronSession secret req res db =
        (Inr (res_redirect ''/'' (res\<lparr>set_cookie := Some ClearedCookie\<rparr>)), db)) \<and>
   snd (post_logout getIronSession secret req res db) = db \<and>
   (\<forall>J subject. SessionStore_get J subject (snd (post_logout getIronSession secret req res db)) =
                 SessionStore_get J subject db)"
proof -
  have a: "getSession getIronSession secret req = Inr s \<longrightarrow>
      post_logout getIronSession secret req res db =
        (Inr (res_redirect ''/'' (res\<lparr>set_cookie := Some ClearedCookie\<rparr>)), db)"
    by (simp add: post_logout_def session_destroy_def)
  have b: "snd (post_logout getIronSession secret req res db) = db"
    by (simp add: post_logout_def split: sum.split)
  from a b show ?thesis by simp
qed

theorem logout_unbinds_and_keeps_credential_witness:
  "getSession plain_iron development_secret
     \<lparr>originalUrl = ''/logout'', body = None, cookie_header = Some ''did:plc:abc123''\<rparr> =
     Inr \<lparr>did = Some ''did:plc:abc123''\<rparr> \<and>
   post_logout plain_iron development_secret
     \<lparr>originalUrl = ''/logout'', body = None, cookie_header = Some ''did:plc:abc123''\<rparr> new_Response
     \<lparr>auth_state = Some [], auth_session = Some [\<lparr>session_key = ''did:plc:abc123'', session = ''true''\<rparr>]\<rparr> =
   (Inr \<lparr>statusCode = 302, location = Some ''/'', sent = None, set_cookie = Some ClearedCookie\<rparr>,
    \<lparr>auth_state = Some [], auth_session = Some [\<lparr>session_key = ''did:plc:abc123'', session = ''true''\<rparr>]\<rparr>)"
proof -
  let ?req = "\<lparr>originalUrl = ''/logout'', body = None, cookie_header = Some ''did:plc:abc123''\<rparr>"
  let ?db = "\<lparr>auth_state = Some [], auth_session = Some [\<lparr>session_key = ''did:plc:abc123'', session = ''true''\<rparr>]\<rparr>"
  have gs: "getSession plain_iron development_secret ?req = Inr \<lparr>did = Some ''did:plc:abc123''\<rparr>"
    by (simp add: getSession_def plain_iron_def)
  from logout_unbinds_and_keeps_credential
    [where getIronSession = plain_iron and secret = development_secret and req = ?req
       and s = "\<lparr>did = Some ''did:plc:abc123''\<rparr>" and res = new_Response and db = ?db] gs
  have "post_logout plain_iron development_secret ?req new_Response ?db =
    (Inr (res_redirect ''/'' (new_Response\<lparr>set_cookie := Some ClearedCookie\<rparr>)), ?db)"
    by blast
  then have "post_logout plain_iron development_secret ?req new_Response ?db =
    (Inr \<lparr>statusCode = 302, location = Some ''/'', sent = None, set_cookie = Some ClearedCookie\<rparr>, ?db)"
    by (simp add: res_redirect_def new_Response_def)
  with gs show ?thesis by (rule conjI)
qed

text \<open>
  C9.  When \<open>oauthClient.callback\<close> rejects, \<open>GET /oauth/callback\<close> answers 500 with the
  retry page and the \<open>Set-Cookie\<close> state of the response is what it was; \<open>getIronSession\<close>
  plays no part in the outcome.
\<close>

theorem failed_callback_binds_no_cookie:
  assumes "callback (URLSearchParams (query_of (originalUrl req))) db = (Inl err, db')"
  shows "get_oauth_callback URLSearchParams callback getIronSession secret req res db =
           (res\<lparr>statusCode := 500, sent := Some callback_failed_page\<rparr>, db') \<and>
         set_cookie (fst (get_oauth_callback URLSearchParams callback getIronSession secret req res db)) =
           set_cookie res"
  using assms by (simp add: get_oauth_callback_def res_send_def res_status_def)

theorem failed_callback_binds_no_cookie_witness:
  "completeCallback bool_JSON bool_JSON exchange_accepting
     (plain_URLSearchParams (query_of (originalUrl
        \<lparr>originalUrl = ''/oauth/callback?state=X&code=Y'', body = None, cookie_header = None\<rparr>)))
     \<lparr>auth_state = Some [\<lparr>state_key = ''flow-1'', state = ''true''\<rparr>], auth_session = Some []\<rparr> =
   (Inl (Error UnknownOrConsumedFlow ''X''),
    \<lparr>auth_state = Some [\<lparr>state_key = ''flow-1'', state = ''true''\<rparr>], auth_session = Some []\<rparr>) \<and>
   get_oauth_callback plain_URLSearchParams (completeCallback bool_JSON bool_JSON exchange_accepting)
     plain_iron development_secret
     \<lparr>originalUrl = ''/oauth/callback?state=X&code=Y'', body = None, cookie_header = None\<rparr>
     new_Response
     \<lparr>auth_state = Some [\<lparr>state_key = ''flow-1'', state = ''true''\<rparr>], auth_session = Some []\<rparr> =
   (\<lparr>statusCode = 500, location = None, sent = Some callback_failed_page, set_cookie = None\<rparr>,
    \<lparr>auth_state = Some [\<lparr>state_key = ''flow-1'', state = ''true''\<rparr>], auth_session = Some []\<rparr>)"
proof -
  let ?req = "\<lparr>originalUrl = ''/oauth/callback?state=X&code=Y'', body = None, cookie_header = None\<rparr>"
  let ?db = "\<lparr>auth_state = Some [\<lparr>state_key = ''flow-1'', state = ''true''\<rparr>], auth_session = Some []\<rparr>"
  have q: "plain_URLSearchParams (query_of (originalUrl ?req)) = [(''state'', ''X''), (''code'', ''Y'')]"
    by (simp add: plain_URLSearchParams_def query_of_def)
  have h: "completeCallback bool_JSON bool_JSON exchange_accepting
      (plain_URLSearchParams (query_of (originalUrl ?req))) ?db =
      (Inl (Error UnknownOrConsumedFlow ''X''), ?db)"
    unfolding q
    by (simp add: completeCallback_def StateStore_get_def selectWhereKey_def)
  from failed_callback_binds_no_cookie
    [where callback = "completeCallback bool_JSON bool_JSON exchange_accepting"
       and URLSearchParams = plain_URLSearchParams and req = ?req and db = ?db and db' = ?db
       and err = "Error UnknownOrConsumedFlow ''X''" and getIronSession = plain_iron
       and secret = development_secret and res = new_Response, OF h]
  have "get_oauth_callback plain_URLSearchParams (completeCallback bool_JSON bool_JSON exchange_accepting)
     plain_iron development_secret ?req new_Response ?db =
     (\<lparr>statusCode = 500, location = None, sent = Some callback_failed_page, set_cookie = None\<rparr>, ?db)"
    by (simp add: new_Response_def)
  with h show ?thesis by (rule conjI)
qed

end
